theory Spec2Isabelle
  imports Complex_Main "HOL-Library.Multiset" "HOL-Library.Sublist"
begin

section \<open>Python values and errors\<close>

text \<open>
  Python exceptions that the embedded functions can raise are values of \<open>py_error\<close>; a
  function that can raise returns \<open>py_error + 'a\<close> with \<open>Inl\<close> for the raise.  Wall-clock
  readings and durations (Python floats) are idealised as reals.
\<close>

datatype py_error = ZeroDivisionError | ValueError | NumpyNaN

definition py_truediv :: "real \<Rightarrow> real \<Rightarrow> py_error + real" where
  "py_truediv a b = (if b = 0 then Inl ZeroDivisionError else Inr (a / b))"

definition py_max :: "real list \<Rightarrow> py_error + real" where
  "py_max xs = (case xs of [] \<Rightarrow> Inl ValueError | y # ys \<Rightarrow> Inr (fold max ys y))"

definition py_min :: "real list \<Rightarrow> py_error + real" where
  "py_min xs = (case xs of [] \<Rightarrow> Inl ValueError | y # ys \<Rightarrow> Inr (fold min ys y))"

text \<open>\<open>numpy.median\<close>: the middle element of the sorted sample, or the mean of the two
  middle ones; on an empty sample numpy yields \<open>nan\<close>.\<close>

definition np_median :: "real list \<Rightarrow> py_error + real" where
  "np_median xs =
     (if xs = [] then Inl NumpyNaN
      else let s = sort xs; n = length s
           in if odd n then Inr (s ! (n div 2))
              else Inr ((s ! (n div 2 - 1) + s ! (n div 2)) / 2))"

text \<open>\<open>numpy.percentile\<close> with its default linear interpolation.\<close>

definition np_percentile :: "real list \<Rightarrow> real \<Rightarrow> py_error + real" where
  "np_percentile xs q =
     (if xs = [] then Inl NumpyNaN
      else let s = sort xs; n = length s;
               h = real (n - 1) * q / 100;
               lo = nat \<lfloor>h\<rfloor>;
               hi = min (lo + 1) (n - 1)
           in Inr (s ! lo + (h - real lo) * (s ! hi - s ! lo)))"

section \<open>ProcessingStats (parallel_processor.py)\<close>

record ProcessingStats =
  total_files :: int
  processed_files :: int
  successful_files :: int
  failed_files :: int
  skipped_files :: int
  start_time :: real
  end_time :: real
  processing_times :: "real list"

text \<open>\<open>ProcessingStats(total_files=n)\<close>; \<open>now\<close> is the reading of \<open>time.time()\<close> taken by
  the default factory of \<open>start_time\<close>.\<close>

definition new_stats :: "real \<Rightarrow> int \<Rightarrow> ProcessingStats" where
  "new_stats now n =
     \<lparr>total_files = n, processed_files = 0, successful_files = 0, failed_files = 0,
      skipped_files = 0, start_time = now, end_time = 0, processing_times = []\<rparr>"

definition total_time :: "real \<Rightarrow> ProcessingStats \<Rightarrow> real" where
  "total_time now st =
     (if end_time st = 0 then now - start_time st else end_time st - start_time st)"

definition average_time :: "ProcessingStats \<Rightarrow> py_error + real" where
  "average_time st =
     (if processing_times st = [] then Inr 0
      else py_truediv (sum_list (processing_times st)) (real (length (processing_times st))))"

definition median_time :: "ProcessingStats \<Rightarrow> py_error + real" where
  "median_time st =
     (if processing_times st = [] then Inr 0 else np_median (processing_times st))"

definition max_time :: "ProcessingStats \<Rightarrow> py_error + real" where
  "max_time st =
     (if processing_times st \<noteq> [] then py_max (processing_times st) else Inr 0)"

definition min_time :: "ProcessingStats \<Rightarrow> py_error + real" where
  "min_time st =
     (if processing_times st \<noteq> [] then py_min (processing_times st) else Inr 0)"

definition success_rate :: "ProcessingStats \<Rightarrow> py_error + real" where
  "success_rate st =
     (if successful_files st + failed_files st = 0 then Inr 0
      else case py_truediv (real_of_int (successful_files st))
                           (real_of_int (successful_files st + failed_files st)) of
             Inl e \<Rightarrow> Inl e
           | Inr r \<Rightarrow> Inr (r * 100))"

definition middle_80_percent_time_range :: "ProcessingStats \<Rightarrow> py_error + real \<times> real" where
  "middle_80_percent_time_range st =
     (if length (processing_times st) < 2 then Inr (0, 0)
      else case np_percentile (processing_times st) 10 of
             Inl e \<Rightarrow> Inl e
           | Inr p10 \<Rightarrow>
               (case np_percentile (processing_times st) 90 of
                  Inl e \<Rightarrow> Inl e
                | Inr p90 \<Rightarrow> Inr (p10, p90)))"

text \<open>
  The rows of the CSV report.  The source's row labels are Chinese text; each is named here
  by a constructor in the order of \<open>report_data\<close>.  A cell is an integer printed by
  \<open>str\<close>, a float printed with \<open>:.2f\<close>, or the pair of the range row.
\<close>

datatype metric =
    M_total_time | M_total_files | M_processed | M_successful | M_failed | M_skipped
  | M_success_rate | M_average | M_median | M_max | M_min | M_middle_80

datatype cell = IntCell int | Fixed2 real | Fixed2Range real real

text \<open>\<open>generate_csv_report\<close>: every metric is evaluated while \<open>report_data\<close> is built, so
  a raising metric would raise out of the method; the write itself is guarded by
  \<open>except IOError\<close> (\<open>io_ok\<close> tells whether the file could be written) and the method
  returns the rows it wrote, if any.\<close>

definition generate_csv_report ::
  "real \<Rightarrow> bool \<Rightarrow> ProcessingStats \<Rightarrow> py_error + (metric \<times> cell) list option" where
  "generate_csv_report now io_ok st =
     (case middle_80_percent_time_range st of Inl e \<Rightarrow> Inl e | Inr (p10, p90) \<Rightarrow>
     (case success_rate st of Inl e \<Rightarrow> Inl e | Inr rate \<Rightarrow>
     (case average_time st of Inl e \<Rightarrow> Inl e | Inr avg \<Rightarrow>
     (case median_time st of Inl e \<Rightarrow> Inl e | Inr med \<Rightarrow>
     (case max_time st of Inl e \<Rightarrow> Inl e | Inr mx \<Rightarrow>
     (case min_time st of Inl e \<Rightarrow> Inl e | Inr mn \<Rightarrow>
        (let report_data =
           [(M_total_time, Fixed2 (total_time now st)),
            (M_total_files, IntCell (total_files st)),
            (M_processed, IntCell (successful_files st + failed_files st)),
            (M_successful, IntCell (successful_files st)),
            (M_failed, IntCell (failed_files st)),
            (M_skipped, IntCell (skipped_files st)),
            (M_success_rate, Fixed2 rate),
            (M_average, Fixed2 avg),
            (M_median, Fixed2 med),
            (M_max, Fixed2 mx),
            (M_min, Fixed2 mn),
            (M_middle_80, Fixed2Range p10 p90)]
         in Inr (if io_ok then Some report_data else None))))))))"

text \<open>\<open>print_summary\<close>: the log lines, as the values they print.  The latency block is
  printed only when the duration list is not empty.\<close>

datatype summary_line =
    L_total_time real | L_files int int | L_successful int | L_failed int | L_skipped int
  | L_success_rate real | L_average real | L_min_median_max real real real
  | L_middle_80 real real

definition print_summary :: "real \<Rightarrow> ProcessingStats \<Rightarrow> py_error + summary_line list" where
  "print_summary now st =
     (let head = [L_total_time (total_time now st),
                  L_files (total_files st) (processed_files st),
                  L_successful (successful_files st),
                  L_failed (failed_files st),
                  L_skipped (skipped_files st)]
      in if processing_times st \<noteq> [] then
           (case success_rate st of Inl e \<Rightarrow> Inl e | Inr rate \<Rightarrow>
           (case average_time st of Inl e \<Rightarrow> Inl e | Inr avg \<Rightarrow>
           (case min_time st of Inl e \<Rightarrow> Inl e | Inr mn \<Rightarrow>
           (case median_time st of Inl e \<Rightarrow> Inl e | Inr med \<Rightarrow>
           (case max_time st of Inl e \<Rightarrow> Inl e | Inr mx \<Rightarrow>
           (case middle_80_percent_time_range st of Inl e \<Rightarrow> Inl e | Inr (p10, p90) \<Rightarrow>
              Inr (head @ [L_success_rate rate, L_average avg,
                           L_min_median_max mn med mx, L_middle_80 p10 p90])))))))
         else Inr head)"

section \<open>Strings and paths (str, pathlib)\<close>

text \<open>File names are byte strings; \<open>str.lower\<close> is modelled on the ASCII letters.\<close>

definition lower_char :: "char \<Rightarrow> char" where
  "lower_char c =
     (let n = (of_char c :: nat) in if 65 \<le> n \<and> n \<le> 90 then char_of (n + 32) else c)"

definition lower :: "string \<Rightarrow> string" where
  "lower s = map lower_char s"

definition endswith :: "string \<Rightarrow> string \<Rightarrow> bool" where
  "endswith s suf = (length suf \<le> length s \<and> drop (length s - length suf) s = suf)"

definition startswith :: "string \<Rightarrow> string \<Rightarrow> bool" where
  "startswith s pre = prefix pre s"

text \<open>\<open>str.rfind\<close> of one character: the index of its last occurrence.\<close>

definition rfind :: "string \<Rightarrow> char \<Rightarrow> nat option" where
  "rfind s c =
     (if c \<in> set s then Some (length s - 1 - length (takeWhile (\<lambda>d. d \<noteq> c) (rev s)))
      else None)"

text \<open>\<open>PurePath.name\<close>: the last component of the path.\<close>

definition path_name :: "string \<Rightarrow> string" where
  "path_name p = rev (takeWhile (\<lambda>c. c \<noteq> CHR ''/'') (rev p))"

text \<open>\<open>PurePath.suffix\<close> and \<open>PurePath.stem\<close>: with \<open>i = name.rfind('.')\<close>, they split the
  name at \<open>i\<close> when \<open>0 < i < len(name) - 1\<close>; otherwise the suffix is empty and the stem is
  the whole name.\<close>

definition path_suffix :: "string \<Rightarrow> string" where
  "path_suffix p =
     (let name = path_name p in
      case rfind name (CHR ''.'') of
        None \<Rightarrow> []
      | Some i \<Rightarrow> if 0 < i \<and> i < length name - 1 then drop i name else [])"

definition path_stem :: "string \<Rightarrow> string" where
  "path_stem p =
     (let name = path_name p in
      case rfind name (CHR ''.'') of
        None \<Rightarrow> name
      | Some i \<Rightarrow> if 0 < i \<and> i < length name - 1 then take i name else name)"

section \<open>File classification (config.py, main.py)\<close>

definition SUPPORTED_PDF_EXTENSIONS :: "string list" where
  "SUPPORTED_PDF_EXTENSIONS = [''.pdf'']"

definition SUPPORTED_TEX_EXTENSIONS :: "string list" where
  "SUPPORTED_TEX_EXTENSIONS = [''.gz'', ''.tar.gz'']"

definition get_file_type :: "string \<Rightarrow> string" where
  "get_file_type file_path =
     (let suffix = lower (path_suffix file_path) in
      if suffix \<in> set SUPPORTED_PDF_EXTENSIONS then ''pdf''
      else if suffix \<in> set SUPPORTED_TEX_EXTENSIONS \<or> endswith (path_name file_path) ''.tar.gz''
      then ''tex''
      else ''unknown'')"

section \<open>Workers (parallel_processor.py, worker_process)\<close>

text \<open>The outcome record a worker puts on the result queue.\<close>

record result =
  file_name :: string
  status :: string
  time :: real

text \<open>
  What a call of \<open>process_single_file_with_failover\<close> does, seen from the worker: it
  returns a flag, raises, or never comes back because the worker process is killed or hangs
  inside it.  \<open>Exception\<close> stands for every exception class derived from Python's
  \<open>Exception\<close>; \<open>KeyboardInterrupt\<close> and \<open>SystemExit\<close> derive from \<open>BaseException\<close> only.
\<close>

datatype raised = Exception | KeyboardInterrupt | SystemExit

datatype call = Returns bool | Raises raised | Killed | Hangs

text \<open>
  The environment of one pool run: the behaviour of the converter on each path, the elapsed
  wall-clock time measured for each path, the order in which the worker processes take their
  steps, the iteration of the collection loop (if any) in which the parent receives
  \<open>KeyboardInterrupt\<close> or \<open>SystemExit\<close>, the readings of \<open>time.time()\<close> at the start and at
  the end of the run, whether the report file can be written, and for each worker whether
  it is still busy when the 10 seconds of its join at shutdown have passed.
\<close>

record pool_env =
  convert :: "string \<Rightarrow> call"
  elapsed :: "string \<Rightarrow> real"
  schedule :: "nat list"
  interrupt :: "nat option"
  t_start :: real
  t_end :: real
  io_ok :: bool
  outlasts_join :: "nat \<Rightarrow> bool"

text \<open>
  One pass of the body of the worker's \<open>while True\<close> loop on a path taken from the file
  queue: either one record is put on the result queue, or the loop is left by the
  \<open>except (KeyboardInterrupt, SystemExit): break\<close> handler, or the process dies, or it is
  stuck in the call for good.
\<close>

datatype item_outcome = Put result | Break | Died | Stuck

definition worker_item :: "pool_env \<Rightarrow> string \<Rightarrow> item_outcome" where
  "worker_item env file_path_str =
     (let result = \<lparr>file_name = path_name file_path_str, status = ''failure'', time = 0\<rparr>;
          file_type = get_file_type file_path_str
      in if file_type = ''pdf'' then Put (result\<lparr>status := ''skipped''\<rparr>)
         else if file_type = ''tex'' then
           (case convert env file_path_str of
              Returns success \<Rightarrow>
                (if success
                 then Put (result\<lparr>time := elapsed env file_path_str, status := ''success''\<rparr>)
                 else Put (result\<lparr>time := elapsed env file_path_str, status := ''failure''\<rparr>))
            | Raises Exception \<Rightarrow>
                Put (result\<lparr>status := ''failure'', time := elapsed env file_path_str\<rparr>)
            | Raises KeyboardInterrupt \<Rightarrow> Break
            | Raises SystemExit \<Rightarrow> Break
            | Killed \<Rightarrow> Died
            | Hangs \<Rightarrow> Stuck)
         else Put (result\<lparr>status := ''skipped''\<rparr>))"

text \<open>
  The pool: the file queue, the result queue and the state of each worker process.  A
  worker is blocked in \<open>file_queue.get()\<close> (\<open>Waiting\<close>), holds a path it has taken
  (\<open>Working\<close>), or has ended.
\<close>

datatype wstate = Waiting | Working string | Ended

record pool =
  file_queue :: "string list"
  result_queue :: "result list"
  workers :: "wstate list"

text \<open>One step of worker \<open>i\<close>: a waiting worker takes the head of the file queue; a
  working worker finishes its item.\<close>

definition worker_step :: "pool_env \<Rightarrow> nat \<Rightarrow> pool \<Rightarrow> pool" where
  "worker_step env i P =
     (if i < length (workers P) then
        (case workers P ! i of
           Waiting \<Rightarrow>
             (case file_queue P of
                [] \<Rightarrow> P
              | p # q \<Rightarrow> P\<lparr>file_queue := q, workers := (workers P)[i := Working p]\<rparr>)
         | Working p \<Rightarrow>
             (case worker_item env p of
                Put r \<Rightarrow> P\<lparr>result_queue := result_queue P @ [r],
                            workers := (workers P)[i := Waiting]\<rparr>
              | Break \<Rightarrow> P\<lparr>workers := (workers P)[i := Ended]\<rparr>
              | Died \<Rightarrow> P\<lparr>workers := (workers P)[i := Ended]\<rparr>
              | Stuck \<Rightarrow> P)
         | Ended \<Rightarrow> P)
      else P)"

definition run_workers :: "pool_env \<Rightarrow> nat list \<Rightarrow> pool \<Rightarrow> pool" where
  "run_workers env sched P = fold (worker_step env) sched P"



section \<open>The pool run (ParallelProcessor.process_files)\<close>

text \<open>The body of the collection loop for one received record.\<close>

definition record_result :: "ProcessingStats \<Rightarrow> result \<Rightarrow> ProcessingStats" where
  "record_result stats r =
     (let stats = stats\<lparr>processed_files := processed_files stats + 1\<rparr> in
      if status r = ''success'' then
        stats\<lparr>successful_files := successful_files stats + 1,
              processing_times := processing_times stats @ [time r]\<rparr>
      else if status r = ''failure'' then
        (let stats = stats\<lparr>failed_files := failed_files stats + 1\<rparr> in
         if time r > 0 then stats\<lparr>processing_times := processing_times stats @ [time r]\<rparr>
         else stats)
      else if status r = ''skipped'' then
        stats\<lparr>skipped_files := skipped_files stats + 1\<rparr>
      else stats)"

text \<open>
  The collection loop \<open>for _ in range(len(file_list))\<close>.  \<open>queue\<close> holds the records the
  workers put, in order.  \<open>result_queue.get()\<close> has no timeout: on a queue that stays empty
  the loop never comes back, which is the value \<open>None\<close>.  An interrupt in iteration \<open>i\<close>
  leaves the loop by \<open>break\<close>.  The loop returns the statistics and the records left in the
  queue.
\<close>

fun collect_results ::
  "nat option \<Rightarrow> nat \<Rightarrow> nat \<Rightarrow> result list \<Rightarrow> ProcessingStats
     \<Rightarrow> (ProcessingStats \<times> result list) option" where
  "collect_results intr 0 i queue stats = Some (stats, queue)"
| "collect_results intr (Suc k) i queue stats =
     (if intr = Some i then Some (stats, queue)
      else case queue of
             [] \<Rightarrow> None
           | r # rest \<Rightarrow> collect_results intr k (Suc i) rest (record_result stats r))"

text \<open>
  The shutdown, in the state in which the collection loop is left: one sentinel per worker
  is queued behind the paths still in the file queue, then every worker is joined for at
  most 10 seconds and terminated if it is still alive.  A worker that has ended is not
  alive; a worker stuck in a conversion is; a worker waiting at an empty file queue takes
  its sentinel and ends; any other worker still has work before its sentinel and is alive
  after the join exactly when the environment says it outlasts it.  The indices of the
  terminated workers are returned.
\<close>

definition alive_after_join :: "pool_env \<Rightarrow> pool \<Rightarrow> nat \<Rightarrow> bool" where
  "alive_after_join env P i =
     (case workers P ! i of
        Ended \<Rightarrow> False
      | Working p \<Rightarrow> worker_item env p = Stuck \<or> outlasts_join env i
      | Waiting \<Rightarrow> file_queue P \<noteq> [] \<and> outlasts_join env i)"

definition stragglers :: "pool_env \<Rightarrow> pool \<Rightarrow> nat list" where
  "stragglers env P = filter (alive_after_join env P) [0..<length (workers P)]"

text \<open>
  While the collection loop waits in \<open>result_queue.get()\<close> the worker processes run on.
  \<open>completion\<close> lets every worker step in turn, for as many rounds as there can be steps
  left: a step that changes the pool takes a path from the file queue or releases a held
  one.
\<close>

definition completion :: "pool \<Rightarrow> nat list" where
  "completion P =
     concat (replicate (2 * length (file_queue P) + length (workers P))
               [0..<length (workers P)])"

text \<open>
  \<open>process_files\<close>.  The schedule of the environment lists the steps the workers take
  first, in any interleaving.  If the records put by then let the collection loop be left
  (all records are there, or the interrupt comes in an iteration they reach), the loop is
  left in that state.  Otherwise the loop keeps waiting while the workers run on until none
  can take a step; if the records still do not suffice, it waits forever.  The result is
  \<open>None\<close> when the call never returns, and otherwise the statistics returned together with
  the workers that were forcibly terminated.  (\<open>print_summary\<close>, called before the return,
  only logs.)
\<close>

definition initial_pool :: "nat \<Rightarrow> string list \<Rightarrow> pool" where
  "initial_pool num_workers file_list =
     \<lparr>file_queue = file_list, result_queue = [], workers = replicate num_workers Waiting\<rparr>"

definition process_files ::
  "pool_env \<Rightarrow> nat \<Rightarrow> string list \<Rightarrow> (ProcessingStats \<times> nat list) option" where
  "process_files env num_workers file_list =
     (let stats0 = new_stats (t_start env) (int (length file_list));
          P1 = run_workers env (schedule env) (initial_pool num_workers file_list)
      in case collect_results (interrupt env) (length file_list) 0 (result_queue P1) stats0 of
           Some (stats, rest) \<Rightarrow> Some (stats\<lparr>end_time := t_end env\<rparr>, stragglers env P1)
         | None \<Rightarrow>
             (let P2 = run_workers env (completion P1) P1
              in case collect_results (interrupt env) (length file_list) 0 (result_queue P2)
                        stats0 of
                   Some (stats, rest) \<Rightarrow>
                     Some (stats\<lparr>end_time := t_end env\<rparr>, stragglers env P2)
                 | None \<Rightarrow> None))"

text \<open>The paths held by the workers, and an environment used in the examples below.\<close>

definition working_items :: "wstate list \<Rightarrow> string list" where
  "working_items ws = concat (map (\<lambda>w. case w of Working p \<Rightarrow> [p] | _ \<Rightarrow> []) ws)"


text \<open>The number of records the collection loop counts before it is left.\<close>

definition collected :: "nat option \<Rightarrow> nat \<Rightarrow> nat" where
  "collected intr n = (case intr of None \<Rightarrow> n | Some k \<Rightarrow> min k n)"

definition demo_env :: pool_env where
  "demo_env =
     \<lparr>convert = (\<lambda>p. if p = ''/s/a.gz'' then Returns True
                     else if p = ''/s/b.gz'' then Returns False
                     else Raises Exception),
      elapsed = (\<lambda>p. 2), schedule = [0, 1, 0, 1, 1, 1, 0, 0], interrupt = None,
      t_start = 100, t_end = 110, io_ok = True, outlasts_join = (\<lambda>i. False)\<rparr>"



definition exiting_env :: pool_env where
  "exiting_env = demo_env\<lparr>convert := (\<lambda>p. Raises SystemExit), schedule := [0, 0]\<rparr>"

definition dead_env :: pool_env where
  "dead_env = demo_env\<lparr>convert := (\<lambda>p. Killed), schedule := [0, 0]\<rparr>"


section \<open>Priorities and the state store (batch_processor.py)\<close>

text \<open>\<open>\d\<close> on the ASCII digits, and \<open>int\<close> of a string of digits.  (File names are
  byte strings here, and far shorter than the length at which recent Python versions refuse
  to convert a digit string.)\<close>

definition is_digit :: "char \<Rightarrow> bool" where
  "is_digit c = (let n = (of_char c :: nat) in 48 \<le> n \<and> n \<le> 57)"

definition digit_value :: "char \<Rightarrow> nat" where
  "digit_value c = of_char c - 48"

definition py_int :: "string \<Rightarrow> int" where
  "py_int ds = int (foldl (\<lambda>acc c. 10 * acc + digit_value c) 0 ds)"

text \<open>
  The pattern \<open>src_(\d+)_(\d+)\.tar\<close> tried at the start of a string.  Each \<open>\d+\<close> is
  followed in the pattern by a character that is not a digit, so a match takes the longest
  run of digits and no backtracking into a shorter run can succeed.
\<close>

definition match_here :: "string \<Rightarrow> (string \<times> string) option" where
  "match_here s =
     (if startswith s ''src_'' then
        (let r1 = drop 4 s; g1 = takeWhile is_digit r1; r2 = dropWhile is_digit r1 in
         if g1 \<noteq> [] \<and> startswith r2 ''_'' then
           (let r3 = drop 1 r2; g2 = takeWhile is_digit r3; r4 = dropWhile is_digit r3 in
            if g2 \<noteq> [] \<and> startswith r4 ''.tar'' then Some (g1, g2) else None)
         else None)
      else None)"

text \<open>\<open>re.search\<close>: the match at the leftmost position that has one.\<close>

fun re_search :: "string \<Rightarrow> (string \<times> string) option" where
  "re_search [] = None"
| "re_search (c # cs) =
     (case match_here (c # cs) of Some g \<Rightarrow> Some g | None \<Rightarrow> re_search cs)"

definition get_priority_from_filename :: "string \<Rightarrow> int" where
  "get_priority_from_filename filename =
     (case re_search filename of
        Some (g1, g2) \<Rightarrow> py_int (g1 @ g2)
      | None \<Rightarrow> 0)"

text \<open>
  An entry of the state file, and the store \<open>state_data["files"]\<close>: a dictionary from file
  names to entries, kept as the list of its items in insertion order.
\<close>

record entry =
  path :: string
  entry_status :: string
  priority :: int

type_synonym store = "(string \<times> entry) list"

text \<open>\<open>d[k] = v\<close> on a dictionary: an existing key keeps its place.\<close>

fun dict_set :: "(string \<times> 'v) list \<Rightarrow> string \<Rightarrow> 'v \<Rightarrow> (string \<times> 'v) list" where
  "dict_set [] k v = [(k, v)]"
| "dict_set ((k', v') # d) k v =
     (if k' = k then (k, v) # d else (k', v') # dict_set d k v)"

text \<open>\<open>{p.name: str(p) for p in source_dir.glob("*.tar")}\<close>, from the listing of the
  source directory.\<close>

definition found_files :: "string list \<Rightarrow> (string \<times> string) list" where
  "found_files listing =
     foldl (\<lambda>d p. dict_set d (path_name p) p) []
       (filter (\<lambda>p. endswith (path_name p) ''.tar'') listing)"

definition add_new :: "store \<Rightarrow> string \<times> string \<Rightarrow> store" where
  "add_new files item =
     (case item of (filename, filepath) \<Rightarrow>
        if filename \<notin> fst ` set files then
          files @ [(filename, \<lparr>path = filepath, entry_status = ''pending'',
                                priority = get_priority_from_filename filename\<rparr>)]
        else files)"

text \<open>\<open>initialize_state\<close>: the store that is written back to the state file, and the
  pending tasks sorted by descending priority (Python's sort is stable, also with
  \<open>reverse=True\<close>).\<close>

definition initialize_state :: "store \<Rightarrow> string list \<Rightarrow> store \<times> (string \<times> entry) list" where
  "initialize_state state_data listing =
     (let files = foldl add_new state_data (found_files listing);
          pending_tasks = filter (\<lambda>item. entry_status (snd item) = ''pending'') files
      in (files, sort_key (\<lambda>item. - priority (snd item)) pending_tasks))"

section \<open>The batch orchestrator (batch_processor.py)\<close>

text \<open>\<open>state_data["files"][filename]["status"] = s\<close>.  The file names passed are names of
  pending tasks, which are keys of the store.\<close>

definition set_status :: "store \<Rightarrow> string \<Rightarrow> string \<Rightarrow> store" where
  "set_status files filename s =
     map (\<lambda>item. if fst item = filename then (fst item, (snd item)\<lparr>entry_status := s\<rparr>)
                   else item) files"

text \<open>
  \<open>run_parallel_processing\<close>: nothing is done when the source directory is missing or
  holds no visible file; otherwise the pool runs on the visible files and the report is
  generated.  \<open>all_files\<close> lists the regular files of the directory.  The function returns nothing in Python; the model returns the statistics that
  went into the report, \<open>Inl\<close> for an exception raised out of it, and \<open>None\<close> when it never
  returns.
\<close>

definition run_parallel_processing ::
  "pool_env \<Rightarrow> bool \<Rightarrow> string list \<Rightarrow> nat \<Rightarrow> (py_error + ProcessingStats option) option" where
  "run_parallel_processing env source_exists all_files num_workers =
     (if \<not> source_exists then Some (Inr None)
      else
        (let files_to_process = filter (\<lambda>f. \<not> startswith (path_name f) ''.'') all_files in
         if files_to_process = [] then Some (Inr None)
         else
           (case process_files env num_workers files_to_process of
              None \<Rightarrow> None
            | Some (stats, terminated) \<Rightarrow>
                (case generate_csv_report (t_end env) (io_ok env) stats of
                   Inl e \<Rightarrow> Some (Inl e)
                 | Inr rows \<Rightarrow> Some (Inr (Some stats))))))"

text \<open>
  The environment of a batch run: whether the source directory exists, its listing, for
  each archive the files that steps 1 to 4 leave in the intake directory (\<open>None\<close> when one
  of these steps raises an exception), and the environment of the pool run of each archive.
\<close>

record batch_env =
  is_dir :: bool
  listing :: "string list"
  staged :: "string \<Rightarrow> string list option"
  pool_of :: "string \<Rightarrow> pool_env"

type_synonym trace = "(string \<times> (py_error + ProcessingStats option)) list"

text \<open>The loop of \<open>main\<close> over the pending tasks.  The trace lists the pool runs that were
  started, with what each produced.\<close>

fun process_tasks ::
  "batch_env \<Rightarrow> nat \<Rightarrow> (string \<times> entry) list \<Rightarrow> store \<Rightarrow> trace \<Rightarrow> (store \<times> trace) option" where
  "process_tasks env num_workers [] files tr = Some (files, tr)"
| "process_tasks env num_workers ((filename, info) # rest) files tr =
     (case staged env filename of
        None \<Rightarrow> process_tasks env num_workers rest (set_status files filename ''failed'') tr
      | Some intake \<Rightarrow>
          (case run_parallel_processing (pool_of env filename) True intake num_workers of
             None \<Rightarrow> None
           | Some (Inl e) \<Rightarrow>
               process_tasks env num_workers rest (set_status files filename ''failed'')
                 (tr @ [(filename, Inl e)])
           | Some (Inr report) \<Rightarrow>
               process_tasks env num_workers rest (set_status files filename ''completed'')
                 (tr @ [(filename, Inr report)])))"

definition main :: "batch_env \<Rightarrow> store \<Rightarrow> nat \<Rightarrow> (store \<times> trace) option" where
  "main env state_data num_workers =
     (if \<not> is_dir env then Some (state_data, [])
      else
        (case initialize_state state_data (listing env) of
           (files, pending_tasks) \<Rightarrow>
             if pending_tasks = [] then Some (files, [])
             else process_tasks env num_workers pending_tasks files []))"

text \<open>The exit status of \<open>python batch_processor.py --source-dir D --workers N\<close>: the value
  of \<open>main\<close> is dropped and the script ends, so the status is 0 whenever \<open>main\<close> returns.\<close>

definition batch_cli :: "batch_env \<Rightarrow> store \<Rightarrow> nat \<Rightarrow> int option" where
  "batch_cli env state_data num_workers =
     (case main env state_data num_workers of None \<Rightarrow> None | Some r \<Rightarrow> Some 0)"

text \<open>The exit status of the sequential entry point \<open>arxiv_parser/main.py\<close>, which takes no
  arguments: \<open>convert_ok\<close> is the flag returned by \<open>process_single_file_with_failover\<close>.\<close>

definition arxiv_parser_main :: "(string \<Rightarrow> bool) \<Rightarrow> bool \<Rightarrow> string list \<Rightarrow> int" where
  "arxiv_parser_main convert_ok source_exists all_files =
     (if \<not> source_exists then 1
      else
        (let files_to_process = filter (\<lambda>f. \<not> startswith (path_name f) ''.'') all_files in
         if files_to_process = [] then 0
         else
           (let failed_count =
                  length (filter (\<lambda>f. get_file_type f = ''tex'' \<and> \<not> convert_ok f)
                            files_to_process)
            in if failed_count = 0 then 0 else 1)))"

definition one_failure_env :: batch_env where
  "one_failure_env =
     \<lparr>is_dir = True, listing = [''/d/arXiv_src_2201_005.tar''],
      staged = (\<lambda>a. Some [''/s/b.gz'']),
      pool_of = (\<lambda>a. demo_env\<lparr>schedule := [0, 0]\<rparr>)\<rparr>"


definition done_store :: store where
  "done_store =
     [(''arXiv_src_2201_005.tar'',
       \<lparr>path = ''/d/arXiv_src_2201_005.tar'', entry_status = ''completed'',
        priority = 2201005\<rparr>)]"

section \<open>Quarantine (utils/file_system.py)\<close>

text \<open>\<open>str\<close> of a non-negative integer.\<close>

fun str_nat :: "nat \<Rightarrow> string" where
  "str_nat n =
     (if n < 10 then [''0123456789'' ! n]
      else str_nat (n div 10) @ [''0123456789'' ! (n mod 10)])"

text \<open>
  The quarantine directory: its files by name, with their contents, and the lines of
  \<open>fail.log\<close>.  Only items classified \<open>tex\<close> are quarantined, so no quarantined file is
  named \<open>fail.log\<close>.
\<close>

record failed_dir =
  quarantined :: "string \<rightharpoonup> string"
  fail_log :: "string list"

text \<open>\<open>write_failure_log\<close> appends one line; \<open>stamp\<close> is the formatted reading of
  \<open>datetime.now()\<close>.\<close>

definition write_failure_log :: "failed_dir \<Rightarrow> string \<Rightarrow> string \<Rightarrow> string \<Rightarrow> failed_dir" where
  "write_failure_log fd stamp filename error_info =
     fd\<lparr>fail_log := fail_log fd @ [''['' @ stamp @ ''] '' @ filename @ '': '' @ error_info]\<rparr>"

text \<open>
  \<open>safe_move_to_failed\<close>.  \<open>now\<close> is \<open>int(time.time())\<close>, \<open>content\<close> the content of the
  source file (\<open>None\<close> when it does not exist, in which case \<open>shutil.move\<close> raises and the
  function returns False).  \<open>shutil.move\<close> onto the name of an existing file replaces that
  file, as \<open>os.rename\<close> does.
\<close>

definition safe_move_to_failed ::
  "nat \<Rightarrow> string \<Rightarrow> string \<Rightarrow> string option \<Rightarrow> string option \<Rightarrow> failed_dir
     \<Rightarrow> bool \<times> failed_dir" where
  "safe_move_to_failed now stamp file_path content error_info fd =
     (case content of
        None \<Rightarrow> (False, fd)
      | Some c \<Rightarrow>
          (let name = path_name file_path;
               target =
                 (if name \<in> dom (quarantined fd)
                  then path_stem name @ ''_'' @ str_nat now @ path_suffix name
                  else name);
               fd = fd\<lparr>quarantined := (quarantined fd)(target \<mapsto> c)\<rparr>
           in (True,
               case error_info of
                 None \<Rightarrow> fd
               | Some e \<Rightarrow> if e \<noteq> [] then write_failure_log fd stamp name e else fd)))"

text \<open>Three items of the same name that fail within the same second, moved in turn into an
  empty quarantine directory.\<close>

definition empty_failed_dir :: failed_dir where
  "empty_failed_dir = \<lparr>quarantined = Map.empty, fail_log = []\<rparr>"

definition three_moves :: failed_dir where
  "three_moves =
     snd (safe_move_to_failed 1700000000 ''t'' ''/s/p.gz'' (Some ''third'') (Some ''bad'')
       (snd (safe_move_to_failed 1700000000 ''t'' ''/s/p.gz'' (Some ''second'') (Some ''bad'')
         (snd (safe_move_to_failed 1700000000 ''t'' ''/s/p.gz'' (Some ''first'') (Some ''bad'')
           empty_failed_dir)))))"

section \<open>Properties of the derived metrics\<close>

lemma success_rate_value:
  "success_rate st =
     Inr (if successful_files st + failed_files st = 0 then 0
          else real_of_int (successful_files st)
               / real_of_int (successful_files st + failed_files st) * 100)"
  by (simp add: success_rate_def py_truediv_def)

text \<open>
  Claim C6.  The success rate of every ProcessingStats is
  \<open>successful_files / (successful_files + failed_files) * 100\<close>, and \<open>0\<close> when
  \<open>successful_files + failed_files = 0\<close>; the property never raises (the value is always
  an \<open>Inr\<close>, so there is no division by zero).  Seven successes and three failures give
  70, no success and no failure give 0.
\<close>

theorem success_rate_formula:
  "success_rate st =
     Inr (if successful_files st + failed_files st = 0 then 0
          else real_of_int (successful_files st)
               / real_of_int (successful_files st + failed_files st) * 100)
   \<and> success_rate (st\<lparr>successful_files := 7, failed_files := 3\<rparr>) = Inr 70
   \<and> success_rate (st\<lparr>successful_files := 0, failed_files := 0\<rparr>) = Inr 0"
  by (simp add: success_rate_def py_truediv_def)

text \<open>
  Claim C10.  On a ProcessingStats whose duration list is empty, \<open>average_time\<close>,
  \<open>median_time\<close>, \<open>max_time\<close> and \<open>min_time\<close> return 0.0 without raising, the percentile
  range is (0, 0), \<open>generate_csv_report\<close> returns without raising, and \<open>print_summary\<close>
  prints its five head lines without raising.
\<close>

theorem empty_durations_metrics:
  assumes "processing_times st = []"
  shows "average_time st = Inr 0 \<and> median_time st = Inr 0
       \<and> max_time st = Inr 0 \<and> min_time st = Inr 0
       \<and> middle_80_percent_time_range st = Inr (0, 0)
       \<and> (\<exists>rows. generate_csv_report now ok st = Inr rows)
       \<and> print_summary now st =
           Inr [L_total_time (total_time now st),
                L_files (total_files st) (processed_files st),
                L_successful (successful_files st),
                L_failed (failed_files st),
                L_skipped (skipped_files st)]"
proof -
  have a: "average_time st = Inr 0" and m: "median_time st = Inr 0"
    and mx: "max_time st = Inr 0" and mn: "min_time st = Inr 0"
    and r: "middle_80_percent_time_range st = Inr (0, 0)"
    using assms
    by (simp_all add: average_time_def median_time_def max_time_def min_time_def
        middle_80_percent_time_range_def)
  have g: "\<exists>rows. generate_csv_report now ok st = Inr rows"
    by (simp add: generate_csv_report_def a m mx mn r success_rate_value)
  have p: "print_summary now st =
           Inr [L_total_time (total_time now st),
                L_files (total_files st) (processed_files st),
                L_successful (successful_files st),
                L_failed (failed_files st),
                L_skipped (skipped_files st)]"
    using assms by (simp add: print_summary_def)
  from a m mx mn r g p show ?thesis by blast
qed

theorem empty_durations_metrics_witness:
  "processing_times (new_stats 5 3) = []
   \<and> average_time (new_stats 5 3) = Inr 0 \<and> median_time (new_stats 5 3) = Inr 0
   \<and> max_time (new_stats 5 3) = Inr 0 \<and> min_time (new_stats 5 3) = Inr 0
   \<and> (\<exists>rows. generate_csv_report 9 True (new_stats 5 3) = Inr rows)"
proof -
  have h: "processing_times (new_stats 5 3) = []" by (simp add: new_stats_def)
  from empty_durations_metrics [OF h, of 9 True] h show ?thesis by blast
qed

section \<open>The worker on one item\<close>

lemma worker_item_not_tex:
  "get_file_type p \<noteq> ''tex'' \<Longrightarrow>
   worker_item env p = Put \<lparr>file_name = path_name p, status = ''skipped'', time = 0\<rparr>"
  by (simp add: worker_item_def Let_def)

lemma worker_item_tex:
  "get_file_type p = ''tex'' \<Longrightarrow>
   worker_item env p =
     (case convert env p of
        Returns success \<Rightarrow>
          Put \<lparr>file_name = path_name p,
               status = (if success then ''success'' else ''failure''),
               time = elapsed env p\<rparr>
      | Raises Exception \<Rightarrow>
          Put \<lparr>file_name = path_name p, status = ''failure'', time = elapsed env p\<rparr>
      | Raises KeyboardInterrupt \<Rightarrow> Break
      | Raises SystemExit \<Rightarrow> Break
      | Killed \<Rightarrow> Died
      | Hangs \<Rightarrow> Stuck)"
  by (simp add: worker_item_def Let_def split: call.splits raised.splits)

lemma worker_item_Put:
  assumes "worker_item env p = Put r"
  shows "file_name r = path_name p"
    and "status r = ''success'' \<or> status r = ''failure'' \<or> status r = ''skipped''"
    and "status r = ''skipped'' \<Longrightarrow> time r = 0 \<and> get_file_type p \<noteq> ''tex''"
proof -
  show "file_name r = path_name p"
    using assms
    by (cases "get_file_type p = ''tex''")
       (auto simp add: worker_item_tex worker_item_not_tex split: call.splits raised.splits if_splits)
  show "status r = ''success'' \<or> status r = ''failure'' \<or> status r = ''skipped''"
    using assms
    by (cases "get_file_type p = ''tex''")
       (auto simp add: worker_item_tex worker_item_not_tex split: call.splits raised.splits if_splits)
  show "status r = ''skipped'' \<Longrightarrow> time r = 0 \<and> get_file_type p \<noteq> ''tex''"
    using assms
    by (cases "get_file_type p = ''tex''")
       (auto simp add: worker_item_tex worker_item_not_tex split: call.splits raised.splits if_splits)
qed

lemma pdf_type: "get_file_type ''/s/c.pdf'' = ''pdf''"
  by (simp add: get_file_type_def path_suffix_def path_name_def rfind_def lower_def
      lower_char_def SUPPORTED_PDF_EXTENSIONS_def)

section \<open>The aggregator\<close>

text \<open>
  Claim C9.  The duration list accumulates exactly the measured durations: a \<open>success\<close>
  record always appends its duration; a \<open>failure\<close> record appends it exactly when it is
  positive, so a failure with duration zero adds nothing; a \<open>skipped\<close> record increments
  the skipped count (and the count of drained records) and leaves the duration list and the
  success rate as they were.  A worker emits \<open>skipped\<close> with duration zero for every path
  that is not classified \<open>tex\<close>, and every \<open>skipped\<close> record it emits has duration zero.
\<close>

theorem aggregator_duration_list:
  "(status r = ''success'' \<longrightarrow>
      processing_times (record_result st r) = processing_times st @ [time r])
   \<and> (status r = ''failure'' \<longrightarrow>
      processing_times (record_result st r) =
        (if time r > 0 then processing_times st @ [time r] else processing_times st))
   \<and> (status r = ''failure'' \<and> time r = 0 \<longrightarrow>
      processing_times (record_result st r) = processing_times st)
   \<and> (status r = ''skipped'' \<longrightarrow>
      record_result st r =
        st\<lparr>processed_files := processed_files st + 1, skipped_files := skipped_files st + 1\<rparr>
      \<and> processing_times (record_result st r) = processing_times st
      \<and> success_rate (record_result st r) = success_rate st)
   \<and> (get_file_type p \<noteq> ''tex'' \<longrightarrow>
      worker_item env p = Put \<lparr>file_name = path_name p, status = ''skipped'', time = 0\<rparr>)
   \<and> (worker_item env p = Put r \<and> status r = ''skipped'' \<longrightarrow> time r = 0)"
proof -
  have 1: "status r = ''success'' \<longrightarrow>
      processing_times (record_result st r) = processing_times st @ [time r]"
    by (simp add: record_result_def Let_def)
  have 2: "status r = ''failure'' \<longrightarrow>
      processing_times (record_result st r) =
        (if time r > 0 then processing_times st @ [time r] else processing_times st)"
    by (simp add: record_result_def Let_def)
  have 3: "status r = ''failure'' \<and> time r = 0 \<longrightarrow>
      processing_times (record_result st r) = processing_times st"
    by (simp add: record_result_def Let_def)
  have 4: "status r = ''skipped'' \<longrightarrow>
      record_result st r =
        st\<lparr>processed_files := processed_files st + 1, skipped_files := skipped_files st + 1\<rparr>
      \<and> processing_times (record_result st r) = processing_times st
      \<and> success_rate (record_result st r) = success_rate st"
    by (simp add: record_result_def Let_def success_rate_def)
  have 5: "get_file_type p \<noteq> ''tex'' \<longrightarrow>
      worker_item env p = Put \<lparr>file_name = path_name p, status = ''skipped'', time = 0\<rparr>"
    by (simp add: worker_item_not_tex)
  have 6: "worker_item env p = Put r \<and> status r = ''skipped'' \<longrightarrow> time r = 0"
    using worker_item_Put(3) by blast
  from 1 2 3 4 5 6 show ?thesis by blast
qed

theorem aggregator_duration_list_witness:
  "processing_times (record_result (new_stats 0 4)
      \<lparr>file_name = ''a.gz'', status = ''success'', time = 2\<rparr>) = [2]
   \<and> processing_times (record_result (new_stats 0 4)
      \<lparr>file_name = ''b.gz'', status = ''failure'', time = 3\<rparr>) = [3]
   \<and> processing_times (record_result (new_stats 0 4)
      \<lparr>file_name = ''d.gz'', status = ''failure'', time = 0\<rparr>) = []
   \<and> record_result (new_stats 0 4) \<lparr>file_name = ''c.pdf'', status = ''skipped'', time = 0\<rparr>
       = (new_stats 0 4)\<lparr>processed_files := 1, skipped_files := 1\<rparr>
   \<and> worker_item demo_env ''/s/c.pdf''
       = Put \<lparr>file_name = ''c.pdf'', status = ''skipped'', time = 0\<rparr>"
proof -
  let ?st = "new_stats 0 4"
  have a: "processing_times (record_result ?st
      \<lparr>file_name = ''a.gz'', status = ''success'', time = 2\<rparr>) = [2]"
    using aggregator_duration_list
      [of "\<lparr>file_name = ''a.gz'', status = ''success'', time = 2\<rparr>" ?st]
    by (simp add: new_stats_def)
  have b: "processing_times (record_result ?st
      \<lparr>file_name = ''b.gz'', status = ''failure'', time = 3\<rparr>) = [3]"
    using aggregator_duration_list
      [of "\<lparr>file_name = ''b.gz'', status = ''failure'', time = 3\<rparr>" ?st]
    by (simp add: new_stats_def)
  have c: "processing_times (record_result ?st
      \<lparr>file_name = ''d.gz'', status = ''failure'', time = 0\<rparr>) = []"
    using aggregator_duration_list
      [of "\<lparr>file_name = ''d.gz'', status = ''failure'', time = 0\<rparr>" ?st]
    by (simp add: new_stats_def)
  have d: "record_result ?st \<lparr>file_name = ''c.pdf'', status = ''skipped'', time = 0\<rparr>
       = ?st\<lparr>processed_files := 1, skipped_files := 1\<rparr>"
    using aggregator_duration_list
      [of "\<lparr>file_name = ''c.pdf'', status = ''skipped'', time = 0\<rparr>" ?st]
    by (simp add: new_stats_def)
  have e: "worker_item demo_env ''/s/c.pdf''
       = Put \<lparr>file_name = ''c.pdf'', status = ''skipped'', time = 0\<rparr>"
    using aggregator_duration_list [of _ _ "''/s/c.pdf''" demo_env]
    by (simp add: pdf_type path_name_def)
  from a b c d e show ?thesis by blast
qed

section \<open>The pool run\<close>

lemma mset_items_update:
  "i < length ws \<Longrightarrow>
   mset (concat (map g (ws[i := w]))) + mset (g (ws ! i)) = mset (concat (map g ws)) + mset (g w)"
proof (induction ws arbitrary: i)
  case Nil
  then show ?case by simp
next
  case (Cons a ws)
  show ?case
  proof (cases i)
    case 0
    then show ?thesis by simp
  next
    case (Suc j)
    with Cons.prems have "j < length ws" by simp
    from Cons.IH [OF this] Suc show ?thesis by (simp add: ac_simps)
  qed
qed

lemma working_items_take:
  assumes "i < length ws" "ws ! i = Waiting"
  shows "mset (working_items (ws[i := Working p])) = mset (working_items ws) + {#p#}"
  using mset_items_update [OF assms(1), of "\<lambda>w. case w of Working p \<Rightarrow> [p] | _ \<Rightarrow> []" "Working p"] assms(2)
  by (simp add: working_items_def)

lemma working_items_done:
  assumes "i < length ws" "ws ! i = Working p" "w = Waiting \<or> w = Ended"
  shows "mset (working_items (ws[i := w])) + {#p#} = mset (working_items ws)"
  using mset_items_update [OF assms(1), of "\<lambda>w. case w of Working p \<Rightarrow> [p] | _ \<Rightarrow> []" w] assms(2,3)
  by (auto simp add: working_items_def)

lemma working_items_all_waiting:
  "\<forall>w\<in>set ws. w = Waiting \<Longrightarrow> working_items ws = []"
  by (induction ws) (simp_all add: working_items_def)

lemma length_workers_step [simp]: "length (workers (worker_step env i P)) = length (workers P)"
  by (simp add: worker_step_def split: wstate.splits list.splits item_outcome.splits)

lemma length_workers_run [simp]: "length (workers (run_workers env sched P)) = length (workers P)"
  unfolding run_workers_def by (induction sched arbitrary: P) simp_all







lemma worker_item_schedule [simp]:
  "worker_item (env\<lparr>schedule := s\<rparr>) p = worker_item env p"
  by (cases "get_file_type p = ''tex''")
     (simp_all add: worker_item_tex worker_item_not_tex split: call.splits raised.splits)

lemma worker_item_interrupt [simp]:
  "worker_item (env\<lparr>interrupt := i\<rparr>) p = worker_item env p"
  by (cases "get_file_type p = ''tex''")
     (simp_all add: worker_item_tex worker_item_not_tex split: call.splits raised.splits)

lemmas path_simps = get_file_type_def path_suffix_def path_name_def rfind_def lower_def
      lower_char_def SUPPORTED_PDF_EXTENSIONS_def SUPPORTED_TEX_EXTENSIONS_def endswith_def

lemma demo_types:
  "get_file_type ''/s/a.gz'' = ''tex''" "get_file_type ''/s/b.gz'' = ''tex''"
  "get_file_type ''/s/c.pdf'' = ''pdf''" "get_file_type ''/s/d.gz'' = ''tex''"
  by (simp_all add: path_simps)

lemma demo_items:
  "worker_item demo_env ''/s/a.gz'' = Put \<lparr>file_name = ''a.gz'', status = ''success'', time = 2\<rparr>"
  "worker_item demo_env ''/s/b.gz'' = Put \<lparr>file_name = ''b.gz'', status = ''failure'', time = 2\<rparr>"
  "worker_item demo_env ''/s/c.pdf'' = Put \<lparr>file_name = ''c.pdf'', status = ''skipped'', time = 0\<rparr>"
  "worker_item demo_env ''/s/d.gz'' = Put \<lparr>file_name = ''d.gz'', status = ''failure'', time = 2\<rparr>"
  by (simp_all add: worker_item_def demo_types demo_env_def path_name_def)



lemma gz_type: "get_file_type ''/s/e.gz'' = ''tex''"
  by (simp add: path_simps)

text \<open>In every run the records, the held items and the queued items stay within the
  outcomes of the submitted items: a record is only ever put by a worker that finished
  an item.\<close>

lemma step_bounded:
  assumes inv: "image_mset Put (mset (result_queue P))
              + image_mset (worker_item env) (mset (working_items (workers P)))
              + image_mset (worker_item env) (mset (file_queue P))
              \<subseteq># M"
  shows "image_mset Put (mset (result_queue (worker_step env i P)))
              + image_mset (worker_item env) (mset (working_items (workers (worker_step env i P))))
              + image_mset (worker_item env) (mset (file_queue (worker_step env i P)))
              \<subseteq># M"
proof (cases "i < length (workers P)")
  case False
  with inv show ?thesis by (simp add: worker_step_def)
next
  case i: True
  show ?thesis
  proof (cases "workers P ! i")
    case Waiting
    show ?thesis
    proof (cases "file_queue P")
      case Nil
      with Waiting i inv show ?thesis by (simp add: worker_step_def)
    next
      case (Cons p q)
      have s: "worker_step env i P = P\<lparr>file_queue := q, workers := (workers P)[i := Working p]\<rparr>"
        using Waiting i Cons by (simp add: worker_step_def)
      have w: "mset (working_items ((workers P)[i := Working p]))
               = mset (working_items (workers P)) + {#p#}"
        using working_items_take [OF i Waiting] .
      from inv Cons show ?thesis by (simp add: s w)
    qed
  next
    case (Working p)
    have d: "image_mset (worker_item env) (mset (working_items (workers P)))
             = image_mset (worker_item env) (mset (working_items ((workers P)[i := w])))
               + {#worker_item env p#}" if "w = Waiting \<or> w = Ended" for w
    proof -
      from working_items_done [OF i Working that]
      have "image_mset (worker_item env) (mset (working_items (workers P)))
            = image_mset (worker_item env)
                (mset (working_items ((workers P)[i := w])) + {#p#})"
        by simp
      then show ?thesis by simp
    qed
    show ?thesis
    proof (cases "worker_item env p")
      case (Put r)
      have s: "worker_step env i P
             = P\<lparr>result_queue := result_queue P @ [r], workers := (workers P)[i := Waiting]\<rparr>"
        using Working i Put by (simp add: worker_step_def)
      from d [of Waiting] have "image_mset (worker_item env) (mset (working_items (workers P)))
             = image_mset (worker_item env) (mset (working_items ((workers P)[i := Waiting])))
               + {#Put r#}" using Put by simp
      with inv show ?thesis by (simp add: s)
    next
      case Break
      have s: "worker_step env i P = P\<lparr>workers := (workers P)[i := Ended]\<rparr>"
        using Working i Break by (simp add: worker_step_def)
      have "image_mset Put (mset (result_queue P))
              + image_mset (worker_item env) (mset (working_items ((workers P)[i := Ended])))
              + image_mset (worker_item env) (mset (file_queue P))
            \<subseteq># image_mset Put (mset (result_queue P))
              + image_mset (worker_item env) (mset (working_items (workers P)))
              + image_mset (worker_item env) (mset (file_queue P))"
        using d [of Ended] by simp
      from subset_mset.order_trans [OF this inv] show ?thesis by (simp add: s)
    next
      case Died
      have s: "worker_step env i P = P\<lparr>workers := (workers P)[i := Ended]\<rparr>"
        using Working i Died by (simp add: worker_step_def)
      have "image_mset Put (mset (result_queue P))
              + image_mset (worker_item env) (mset (working_items ((workers P)[i := Ended])))
              + image_mset (worker_item env) (mset (file_queue P))
            \<subseteq># image_mset Put (mset (result_queue P))
              + image_mset (worker_item env) (mset (working_items (workers P)))
              + image_mset (worker_item env) (mset (file_queue P))"
        using d [of Ended] by simp
      from subset_mset.order_trans [OF this inv] show ?thesis by (simp add: s)
    next
      case Stuck
      with Working i inv show ?thesis by (simp add: worker_step_def)
    qed
  next
    case Ended
    with i inv show ?thesis by (simp add: worker_step_def)
  qed
qed

lemma run_bounded:
  "image_mset Put (mset (result_queue (run_workers env sched (initial_pool n files))))
   \<subseteq># image_mset (worker_item env) (mset files)"
proof -
  have "image_mset Put (mset (result_queue P))
              + image_mset (worker_item env) (mset (working_items (workers P)))
              + image_mset (worker_item env) (mset (file_queue P))
              \<subseteq># M \<Longrightarrow>
        image_mset Put (mset (result_queue (run_workers env sched P)))
              + image_mset (worker_item env) (mset (working_items (workers (run_workers env sched P))))
              + image_mset (worker_item env) (mset (file_queue (run_workers env sched P)))
              \<subseteq># M" for P M
  proof (induction sched arbitrary: P)
    case Nil
    then show ?case by (simp add: run_workers_def)
  next
    case (Cons i sched)
    from Cons.IH [OF step_bounded [OF Cons.prems, of i]]
    show ?case by (simp add: run_workers_def)
  qed
  from this [of "initial_pool n files" "image_mset (worker_item env) (mset files)"]
  have "image_mset Put (mset (result_queue (run_workers env sched (initial_pool n files))))
              + image_mset (worker_item env)
                  (mset (working_items (workers (run_workers env sched (initial_pool n files)))))
              + image_mset (worker_item env)
                  (mset (file_queue (run_workers env sched (initial_pool n files))))
              \<subseteq># image_mset (worker_item env) (mset files)"
    by (simp add: initial_pool_def working_items_all_waiting)
  moreover have "image_mset Put (mset (result_queue (run_workers env sched (initial_pool n files))))
        \<subseteq># image_mset Put (mset (result_queue (run_workers env sched (initial_pool n files))))
              + image_mset (worker_item env)
                  (mset (working_items (workers (run_workers env sched (initial_pool n files)))))
              + image_mset (worker_item env)
                  (mset (file_queue (run_workers env sched (initial_pool n files))))"
    by (simp add: union_assoc)
  ultimately show ?thesis by (rule subset_mset.order_trans [rotated])
qed

lemma results_fewer_when_item_lost:
  assumes p: "p \<in> set files" and lost: "\<forall>r. worker_item env p \<noteq> Put r"
  shows "length (result_queue (run_workers env sched (initial_pool n files))) < length files"
proof -
  let ?rq = "result_queue (run_workers env sched (initial_pool n files))"
  let ?isput = "\<lambda>out. \<exists>r. out = Put r"
  have "filter_mset ?isput (image_mset Put (mset ?rq))
        \<subseteq># filter_mset ?isput (image_mset (worker_item env) (mset files))"
    using run_bounded by (rule multiset_filter_mono)
  moreover have "filter_mset ?isput (image_mset Put (mset ?rq)) = image_mset Put (mset ?rq)"
    by (simp add: filter_mset_eq_conv)
  ultimately have "image_mset Put (mset ?rq)
        \<subseteq># filter_mset ?isput (image_mset (worker_item env) (mset files))"
    by simp
  then have "size (image_mset Put (mset ?rq))
        \<le> size (filter_mset ?isput (image_mset (worker_item env) (mset files)))"
    by (rule size_mset_mono)
  moreover have "size (filter_mset ?isput (image_mset (worker_item env) (mset files)))
        = length (filter (\<lambda>q. ?isput (worker_item env q)) files)"
    by (simp add: filter_mset_image_mset flip: mset_filter)
  moreover have "length (filter (\<lambda>q. ?isput (worker_item env q)) files) < length files"
    using p lost by (intro length_filter_less [of p]) auto
  ultimately show ?thesis by simp
qed







lemma run_workers_append:
  "run_workers env (xs @ ys) P = run_workers env ys (run_workers env xs P)"
  by (simp add: run_workers_def)




lemma collect_results_general:
  "collect_results intr n i q st =
     (let c = (case intr of None \<Rightarrow> n
               | Some k \<Rightarrow> if i \<le> k \<and> k < i + n then k - i else n)
      in if c \<le> length q then Some (foldl record_result st (take c q), drop c q) else None)"
proof (induction n arbitrary: i q st)
  case 0
  then show ?case by (auto split: option.splits)
next
  case (Suc n)
  show ?case
  proof (cases "intr = Some i")
    case True
    then show ?thesis by simp
  next
    case False
    show ?thesis
    proof (cases q)
      case Nil
      with False show ?thesis by (auto simp add: Let_def split: option.splits)
    next
      case (Cons r rest)
      have "(case intr of None \<Rightarrow> Suc n
               | Some k \<Rightarrow> if i \<le> k \<and> k < i + Suc n then k - i else Suc n)
            = Suc (case intr of None \<Rightarrow> n
               | Some k \<Rightarrow> if Suc i \<le> k \<and> k < Suc i + n then k - Suc i else n)"
        using False by (auto split: option.splits)
      with False Cons Suc.IH [of "Suc i" rest "record_result st r"] show ?thesis
        by (simp add: Let_def)
    qed
  qed
qed

lemma collect_results_collected:
  "collect_results intr n 0 q st =
     (if collected intr n \<le> length q
      then Some (foldl record_result st (take (collected intr n) q),
                 drop (collected intr n) q)
      else None)"
proof -
  have "(case intr of None \<Rightarrow> n | Some k \<Rightarrow> if 0 \<le> k \<and> k < 0 + n then k - 0 else n)
        = collected intr n"
    by (auto simp add: collected_def split: option.splits)
  with collect_results_general [of intr n 0 q st] show ?thesis by (simp add: Let_def)
qed



lemma process_files_cases:
  "process_files env n files =
     (let c = collected (interrupt env) (length files);
          st0 = new_stats (t_start env) (int (length files));
          P1 = run_workers env (schedule env) (initial_pool n files);
          P2 = run_workers env (schedule env @ completion P1) (initial_pool n files)
      in if c \<le> length (result_queue P1)
         then Some ((foldl record_result st0 (take c (result_queue P1)))\<lparr>end_time := t_end env\<rparr>,
                    stragglers env P1)
         else if c \<le> length (result_queue P2)
         then Some ((foldl record_result st0 (take c (result_queue P2)))\<lparr>end_time := t_end env\<rparr>,
                    stragglers env P2)
         else None)"
  by (simp add: process_files_def collect_results_collected Let_def run_workers_append)

lemma worker_step_interrupt [simp]:
  "worker_step (env\<lparr>interrupt := i\<rparr>) = worker_step env"
  by (intro ext) (simp add: worker_step_def split: wstate.splits list.splits)






section \<open>Exceptions in a worker\<close>

text \<open>
  Claim C8, as amended.  For a work item that a worker holds and whose conversion raises an
  exception of class \<open>Exception\<close>, the worker puts exactly one record for the item, with
  status \<open>failure\<close> and the measured elapsed time, and goes back to waiting for the next
  item.  When the conversion raises KeyboardInterrupt or SystemExit, the worker leaves its
  loop by the explicit \<open>break\<close> and puts no record.  (Classification is a pure function
  of the file name and raises nothing; the converter is called only for items classified
  \<open>tex\<close>.)
\<close>

theorem worker_exception_is_failure:
  assumes tex: "get_file_type p = ''tex''"
    and i: "i < length (workers P)"
    and w: "workers P ! i = Working p"
  shows "(convert env p = Raises Exception \<longrightarrow>
            worker_item env p
              = Put \<lparr>file_name = path_name p, status = ''failure'', time = elapsed env p\<rparr>
          \<and> worker_step env i P
              = P\<lparr>result_queue := result_queue P
                     @ [\<lparr>file_name = path_name p, status = ''failure'', time = elapsed env p\<rparr>],
                   workers := (workers P)[i := Waiting]\<rparr>)
       \<and> (convert env p = Raises KeyboardInterrupt \<or> convert env p = Raises SystemExit \<longrightarrow>
            worker_item env p = Break
          \<and> worker_step env i P = P\<lparr>workers := (workers P)[i := Ended]\<rparr>)"
proof -
  have a: "worker_item env p
              = Put \<lparr>file_name = path_name p, status = ''failure'', time = elapsed env p\<rparr>"
    if "convert env p = Raises Exception"
    using that tex by (simp add: worker_item_tex)
  have b: "worker_item env p = Break"
    if "convert env p = Raises KeyboardInterrupt \<or> convert env p = Raises SystemExit"
    using that tex by (auto simp add: worker_item_tex)
  show ?thesis
    using a b i w by (auto simp add: worker_step_def)
qed

theorem worker_exception_is_failure_witness:
  "get_file_type ''/s/e.gz'' = ''tex''
   \<and> convert demo_env ''/s/e.gz'' = Raises Exception
   \<and> worker_step demo_env 0
        \<lparr>file_queue = [''/s/f.gz''], result_queue = [], workers = [Working ''/s/e.gz'']\<rparr>
      = \<lparr>file_queue = [''/s/f.gz''],
         result_queue = [\<lparr>file_name = ''e.gz'', status = ''failure'', time = 2\<rparr>],
         workers = [Waiting]\<rparr>
   \<and> convert exiting_env ''/s/e.gz'' = Raises SystemExit
   \<and> worker_step exiting_env 0
        \<lparr>file_queue = [''/s/f.gz''], result_queue = [], workers = [Working ''/s/e.gz'']\<rparr>
      = \<lparr>file_queue = [''/s/f.gz''], result_queue = [], workers = [Ended]\<rparr>"
proof -
  let ?P = "\<lparr>file_queue = [''/s/f.gz''], result_queue = [], workers = [Working ''/s/e.gz'']\<rparr>"
  have i: "0 < length (workers ?P)" and w: "workers ?P ! 0 = Working ''/s/e.gz''"
    by simp_all
  have c1: "convert demo_env ''/s/e.gz'' = Raises Exception"
    by (simp add: demo_env_def)
  have c2: "convert exiting_env ''/s/e.gz'' = Raises SystemExit"
    by (simp add: exiting_env_def)
  have e1: "elapsed demo_env ''/s/e.gz'' = 2" by (simp add: demo_env_def)
  from worker_exception_is_failure [OF gz_type i w, of demo_env] c1
  have s1: "worker_step demo_env 0 ?P
      = \<lparr>file_queue = [''/s/f.gz''],
         result_queue = [\<lparr>file_name = ''e.gz'', status = ''failure'', time = 2\<rparr>],
         workers = [Waiting]\<rparr>"
    by (simp add: e1 path_name_def)
  from worker_exception_is_failure [OF gz_type i w, of exiting_env] c2
  have s2: "worker_step exiting_env 0 ?P
      = \<lparr>file_queue = [''/s/f.gz''], result_queue = [], workers = [Ended]\<rparr>"
    by simp
  from gz_type c1 s1 c2 s2 show ?thesis by blast
qed

text \<open>
  The claim as stated fails for SystemExit: a single worker whose first conversion raises
  it ends without a record, and the second item stays in the file queue.
\<close>

theorem system_exit_ends_worker_without_record:
  "get_file_type ''/s/e.gz'' = ''tex''
   \<and> convert exiting_env ''/s/e.gz'' = Raises SystemExit
   \<and> worker_item exiting_env ''/s/e.gz'' = Break
   \<and> run_workers exiting_env [0, 0, 0, 0] (initial_pool 1 [''/s/e.gz'', ''/s/f.gz''])
      = \<lparr>file_queue = [''/s/f.gz''], result_queue = [], workers = [Ended]\<rparr>"
proof -
  have c: "convert exiting_env ''/s/e.gz'' = Raises SystemExit"
    by (simp add: exiting_env_def)
  have b: "worker_item exiting_env ''/s/e.gz'' = Break"
    using c by (simp add: worker_item_tex gz_type)
  have r: "run_workers exiting_env [0, 0, 0, 0] (initial_pool 1 [''/s/e.gz'', ''/s/f.gz''])
      = \<lparr>file_queue = [''/s/f.gz''], result_queue = [], workers = [Ended]\<rparr>"
    by (simp add: run_workers_def initial_pool_def worker_step_def b)
  from gz_type c b r show ?thesis by blast
qed

section \<open>A lost worker\<close>

lemma lost_item_blocks_collection:
  assumes "p \<in> set file_list" and "\<forall>r. worker_item env p \<noteq> Put r"
    and "interrupt env = None"
  shows "process_files env num_workers file_list = None"
proof -
  let ?P1 = "run_workers env (schedule env) (initial_pool num_workers file_list)"
  from assms(3) have c: "collected (interrupt env) (length file_list) = length file_list"
    by (simp add: collected_def)
  from results_fewer_when_item_lost [OF assms(1,2), of "schedule env" num_workers]
    results_fewer_when_item_lost [OF assms(1,2), of "schedule env @ completion ?P1" num_workers]
  show ?thesis by (simp add: process_files_cases Let_def c)
qed

text \<open>
  Claim C2 at a failing input: one item, whose worker process is killed inside the
  conversion.  No record is ever put, and \<open>process_files\<close> never returns, whatever the
  number of workers and whatever steps they take: the collection loop waits in
  \<open>result_queue.get()\<close> without a timeout, and the bounded join and the forced termination
  that follow the loop are never reached.
\<close>

theorem dead_worker_blocks_collection:
  "worker_item dead_env ''/s/e.gz'' = Died
   \<and> (\<forall>sched num_workers.
        process_files (dead_env\<lparr>schedule := sched\<rparr>) num_workers [''/s/e.gz''] = None)"
proof -
  have d: "worker_item dead_env ''/s/e.gz'' = Died"
    by (simp add: worker_item_tex gz_type dead_env_def)
  have "process_files (dead_env\<lparr>schedule := sched\<rparr>) num_workers [''/s/e.gz''] = None"
    for sched num_workers
  proof (rule lost_item_blocks_collection [of "''/s/e.gz''"])
    show "''/s/e.gz'' \<in> set [''/s/e.gz'']" by simp
    show "\<forall>r. worker_item (dead_env\<lparr>schedule := sched\<rparr>) ''/s/e.gz'' \<noteq> Put r"
      using d by simp
    show "interrupt (dead_env\<lparr>schedule := sched\<rparr>) = None"
      by (simp add: dead_env_def demo_env_def)
  qed
  with d show ?thesis by blast
qed

section \<open>Priorities\<close>

lemma digits_then_other:
  assumes "list_all is_digit g" "\<not> is_digit c"
  shows "takeWhile is_digit (g @ c # r) = g" "dropWhile is_digit (g @ c # r) = c # r"
  using assms by (induction g) simp_all

lemma not_digit_chars [simp]: "\<not> is_digit CHR ''_''" "\<not> is_digit CHR ''.''"
  by (simp_all add: is_digit_def)

lemma match_here_intro:
  assumes "g1 \<noteq> []" "g2 \<noteq> []" "list_all is_digit g1" "list_all is_digit g2"
  shows "match_here (''src_'' @ g1 @ ''_'' @ g2 @ ''.tar'' @ rest) = Some (g1, g2)"
proof -
  have a: "takeWhile is_digit (g1 @ CHR ''_'' # g2 @ ''.tar'' @ rest) = g1"
    "dropWhile is_digit (g1 @ CHR ''_'' # g2 @ ''.tar'' @ rest) = CHR ''_'' # g2 @ ''.tar'' @ rest"
    using digits_then_other [OF assms(3), of "CHR ''_''"] by simp_all
  have b: "takeWhile is_digit (g2 @ CHR ''.'' # ''tar'' @ rest) = g2"
    "dropWhile is_digit (g2 @ CHR ''.'' # ''tar'' @ rest) = CHR ''.'' # ''tar'' @ rest"
    using digits_then_other [OF assms(4), of "CHR ''.''"] by simp_all
  show ?thesis
    using assms(1,2)
    by (simp add: match_here_def startswith_def Let_def a [simplified] b [simplified])
qed

lemma match_here_elim:
  assumes "match_here s = Some (g1, g2)"
  shows "g1 \<noteq> [] \<and> g2 \<noteq> [] \<and> list_all is_digit g1 \<and> list_all is_digit g2
       \<and> (\<exists>rest. s = ''src_'' @ g1 @ ''_'' @ g2 @ ''.tar'' @ rest)"
proof -
  from assms have p1: "prefix ''src_'' s"
    by (simp add: match_here_def startswith_def split: if_splits)
  then obtain r1 where s: "s = ''src_'' @ r1" by (auto simp add: prefix_def)
  let ?r2 = "dropWhile is_digit r1"
  from assms s have g1: "g1 = takeWhile is_digit r1" "g1 \<noteq> []" and p2: "prefix ''_'' ?r2"
    by (auto simp add: match_here_def startswith_def Let_def split: if_splits)
  from p2 obtain r3 where r2: "?r2 = ''_'' @ r3" by (auto simp add: prefix_def)
  let ?r4 = "dropWhile is_digit r3"
  from assms s g1 r2 have g2: "g2 = takeWhile is_digit r3" "g2 \<noteq> []"
    and p4: "prefix ''.tar'' ?r4"
    by (auto simp add: match_here_def startswith_def Let_def split: if_splits)
  from p4 obtain rest where r4: "?r4 = ''.tar'' @ rest" by (auto simp add: prefix_def)
  have "r1 = g1 @ ?r2" by (simp add: g1)
  moreover have "r3 = g2 @ ?r4" by (simp add: g2)
  ultimately have "s = ''src_'' @ g1 @ ''_'' @ g2 @ ''.tar'' @ rest"
    using s r2 r4 by (metis append.assoc)
  moreover have "list_all is_digit g1" "list_all is_digit g2"
    by (auto simp add: g1 g2 list_all_iff dest: set_takeWhileD)
  ultimately show ?thesis using g1(2) g2(2) by blast
qed

lemma re_search_Some:
  "re_search s = Some g \<Longrightarrow> \<exists>pre t. s = pre @ t \<and> match_here t = Some g"
proof (induction s)
  case Nil
  then show ?case by simp
next
  case (Cons c cs)
  show ?case
  proof (cases "match_here (c # cs)")
    case None
    with Cons.prems have "re_search cs = Some g" by simp
    from Cons.IH [OF this] obtain pre t where "cs = pre @ t" "match_here t = Some g" by blast
    then have "c # cs = (c # pre) @ t \<and> match_here t = Some g" by simp
    then show ?thesis by blast
  next
    case (Some h)
    with Cons.prems have "h = g" by simp
    with Some have "c # cs = [] @ (c # cs) \<and> match_here (c # cs) = Some g" by simp
    then show ?thesis by blast
  qed
qed

lemma match_here_Nil [simp]: "match_here [] = None"
  by (simp add: match_here_def startswith_def)

lemma re_search_None:
  "(\<forall>pre t. s = pre @ t \<longrightarrow> match_here t = None) \<Longrightarrow> re_search s = None"
proof (induction s)
  case Nil
  then show ?case by simp
next
  case (Cons c cs)
  have "match_here (c # cs) = None" using Cons.prems [rule_format, of "[]" "c # cs"] by simp
  moreover have "\<forall>pre t. cs = pre @ t \<longrightarrow> match_here t = None"
  proof (intro allI impI)
    fix pre t assume "cs = pre @ t"
    then have "c # cs = (c # pre) @ t" by simp
    with Cons.prems show "match_here t = None" by blast
  qed
  ultimately show ?case using Cons.IH by simp
qed

lemma py_int_nonneg: "0 \<le> py_int ds"
  by (simp add: py_int_def)

lemma priority_nonneg: "0 \<le> get_priority_from_filename f"
  by (simp add: get_priority_from_filename_def py_int_nonneg split: option.splits)

lemma priority_of_match:
  assumes "get_priority_from_filename f \<noteq> 0"
  shows "\<exists>pre g1 g2 rest. f = pre @ ''src_'' @ g1 @ ''_'' @ g2 @ ''.tar'' @ rest
          \<and> g1 \<noteq> [] \<and> g2 \<noteq> [] \<and> list_all is_digit g1 \<and> list_all is_digit g2
          \<and> get_priority_from_filename f = py_int (g1 @ g2)"
proof -
  from assms obtain g1 g2 where g: "re_search f = Some (g1, g2)"
    by (auto simp add: get_priority_from_filename_def split: option.splits)
  from re_search_Some [OF g] obtain pre t where f: "f = pre @ t" and m: "match_here t = Some (g1, g2)"
    by blast
  from match_here_elim [OF m] f g show ?thesis
    by (auto simp add: get_priority_from_filename_def)
qed

lemma priority_no_match:
  assumes "\<forall>pre g1 g2 rest. f = pre @ ''src_'' @ g1 @ ''_'' @ g2 @ ''.tar'' @ rest \<longrightarrow>
             \<not> (g1 \<noteq> [] \<and> g2 \<noteq> [] \<and> list_all is_digit g1 \<and> list_all is_digit g2)"
  shows "get_priority_from_filename f = 0"
  using priority_of_match [of f] assms by blast

lemma priority_arxiv_name:
  assumes "g1 \<noteq> []" "g2 \<noteq> []" "list_all is_digit g1" "list_all is_digit g2"
  shows "get_priority_from_filename (''arXiv_src_'' @ g1 @ ''_'' @ g2 @ ''.tar'' @ rest)
         = py_int (g1 @ g2)"
proof -
  have m: "match_here (''src_'' @ g1 @ ''_'' @ g2 @ ''.tar'' @ rest) = Some (g1, g2)"
    using assms by (rule match_here_intro)
  have n: "match_here (c # cs) = None" if "c \<noteq> CHR ''s''" for c cs
    using that by (auto simp add: match_here_def startswith_def)
  have "re_search (''arXiv_src_'' @ g1 @ ''_'' @ g2 @ ''.tar'' @ rest) = Some (g1, g2)"
    using m by (simp add: n)
  then show ?thesis by (simp add: get_priority_from_filename_def)
qed

lemma priority_2201: "get_priority_from_filename ''arXiv_src_2201_005.tar'' = 2201005"
  by (simp add: get_priority_from_filename_def match_here_def startswith_def is_digit_def
      py_int_def digit_value_def)

lemma priority_2203: "get_priority_from_filename ''arXiv_src_2203_001.tar'' = 2203001"
  by (simp add: get_priority_from_filename_def match_here_def startswith_def is_digit_def
      py_int_def digit_value_def)

section \<open>The state store\<close>



lemma add_new_known:
  "fst item \<in> fst ` set files \<Longrightarrow> add_new files item = files"
  by (cases item) (simp add: add_new_def)


lemma scan_appends:
  "\<exists>new. foldl add_new files items = files @ new
     \<and> (\<forall>item\<in>set new.
           fst item \<notin> fst ` set files \<and> fst item \<in> fst ` set items
         \<and> entry_status (snd item) = ''pending''
         \<and> priority (snd item) = get_priority_from_filename (fst item))
     \<and> (distinct (map fst files) \<longrightarrow> distinct (map fst (files @ new)))"
proof (induction items arbitrary: files)
  case Nil
  then show ?case by simp
next
  case (Cons item items)
  obtain filename filepath where item: "item = (filename, filepath)" by (cases item)
  show ?case
  proof (cases "filename \<in> fst ` set files")
    case True
    then have "add_new files item = files" by (simp add: add_new_known item)
    with Cons.IH [of files] show ?thesis by auto
  next
    case False
    let ?e = "(filename, \<lparr>path = filepath, entry_status = ''pending'',
                          priority = get_priority_from_filename filename\<rparr>)"
    have a: "add_new files item = files @ [?e]" using False by (simp add: add_new_def item)
    from Cons.IH [of "files @ [?e]"] obtain new where
      n: "foldl add_new (files @ [?e]) items = (files @ [?e]) @ new"
      and p: "\<forall>item\<in>set new.
           fst item \<notin> fst ` set (files @ [?e]) \<and> fst item \<in> fst ` set items
         \<and> entry_status (snd item) = ''pending''
         \<and> priority (snd item) = get_priority_from_filename (fst item)"
      and d: "distinct (map fst (files @ [?e])) \<longrightarrow> distinct (map fst ((files @ [?e]) @ new))"
      by blast
    have "foldl add_new files (item # items) = files @ (?e # new)"
      using a n by simp
    moreover have "\<forall>it\<in>set (?e # new).
           fst it \<notin> fst ` set files \<and> fst it \<in> fst ` set (item # items)
         \<and> entry_status (snd it) = ''pending''
         \<and> priority (snd it) = get_priority_from_filename (fst it)"
      using p False item by auto
    moreover have "distinct (map fst files) \<longrightarrow> distinct (map fst (files @ (?e # new)))"
      using d False by auto
    ultimately show ?thesis by blast
  qed
qed

lemma set_status_keys [simp]: "map fst (set_status files f s) = map fst files"
  by (simp add: set_status_def comp_def)










lemma one_failure_pool:
  "process_files (demo_env\<lparr>schedule := [0, 0]\<rparr>) 1 [''/s/b.gz'']
   = Some (\<lparr>total_files = 1, processed_files = 1, successful_files = 0, failed_files = 1,
             skipped_files = 0, start_time = 100, end_time = 110, processing_times = [2]\<rparr>, [])"
proof -
  let ?e = "demo_env\<lparr>schedule := [0, 0]\<rparr>"
  have f: "schedule ?e = [0, 0]" "interrupt ?e = None" "t_start ?e = 100" "t_end ?e = 110"
    by (simp_all add: demo_env_def)
  have run: "run_workers ?e [0, 0] (initial_pool 1 [''/s/b.gz''])
        = \<lparr>file_queue = [],
           result_queue = [\<lparr>file_name = ''b.gz'', status = ''failure'', time = 2\<rparr>],
           workers = [Waiting]\<rparr>"
    by (simp add: run_workers_def initial_pool_def worker_step_def demo_items)
  show ?thesis
    by (simp add: process_files_def f run [simplified] new_stats_def stragglers_def
        alive_after_join_def record_result_def)
qed

lemma one_failure_main:
  "main one_failure_env [] 1
   = Some ([(''arXiv_src_2201_005.tar'',
             \<lparr>path = ''/d/arXiv_src_2201_005.tar'', entry_status = ''completed'',
               priority = 2201005\<rparr>)],
           [(''arXiv_src_2201_005.tar'',
             Inr (Some \<lparr>total_files = 1, processed_files = 1, successful_files = 0,
                        failed_files = 1, skipped_files = 0, start_time = 100,
                        end_time = 110, processing_times = [2]\<rparr>))])"
proof -
  have i: "initialize_state [] (listing one_failure_env)
           = ([(''arXiv_src_2201_005.tar'',
                \<lparr>path = ''/d/arXiv_src_2201_005.tar'', entry_status = ''pending'',
                  priority = 2201005\<rparr>)],
              [(''arXiv_src_2201_005.tar'',
                \<lparr>path = ''/d/arXiv_src_2201_005.tar'', entry_status = ''pending'',
                  priority = 2201005\<rparr>)])"
    by (simp add: initialize_state_def one_failure_env_def found_files_def path_name_def
        endswith_def add_new_def priority_2201 Let_def)
  have r: "run_parallel_processing (pool_of one_failure_env ''arXiv_src_2201_005.tar'')
             True [''/s/b.gz''] 1
           = Some (Inr (Some \<lparr>total_files = 1, processed_files = 1, successful_files = 0,
                        failed_files = 1, skipped_files = 0, start_time = 100,
                        end_time = 110, processing_times = [2]\<rparr>))"
    by (simp add: run_parallel_processing_def one_failure_env_def startswith_def path_name_def
        one_failure_pool [simplified] generate_csv_report_def middle_80_percent_time_range_def
        success_rate_def py_truediv_def average_time_def median_time_def np_median_def
        max_time_def min_time_def py_max_def py_min_def)
  have s: "staged one_failure_env ''arXiv_src_2201_005.tar'' = Some [''/s/b.gz'']"
    "is_dir one_failure_env"
    by (simp_all add: one_failure_env_def)
  show ?thesis
    by (simp add: main_def i s r [simplified] set_status_def)
qed



section \<open>The backlog order\<close>

lemma backlog_sorted:
  "sorted_wrt (\<lambda>a b. priority (snd b) \<le> priority (snd a)) (snd (initialize_state st ls))"
proof -
  have "sorted (map (\<lambda>item. - priority (snd item)) (snd (initialize_state st ls)))"
    by (simp add: initialize_state_def Let_def)
  then show ?thesis by (simp add: sorted_map)
qed

lemma backlog_stable:
  "filter (\<lambda>item. priority (snd item) = k) (snd (initialize_state st ls))
   = filter (\<lambda>item. priority (snd item) = k)
       (filter (\<lambda>item. entry_status (snd item) = ''pending'') (fst (initialize_state st ls)))"
proof -
  let ?p = "filter (\<lambda>item. entry_status (snd item) = ''pending'')
              (foldl add_new st (found_files ls))"
  have "filter (\<lambda>item. - priority (snd item) = - k)
          (sort_key (\<lambda>item. - priority (snd item)) ?p)
        = filter (\<lambda>item. - priority (snd item) = - k) ?p"
    by (rule sort_key_stable)
  then have "filter (\<lambda>item. priority (snd item) = k)
          (sort_key (\<lambda>item. - priority (snd item)) ?p)
        = filter (\<lambda>item. priority (snd item) = k) ?p"
    by (simp only: neg_equal_iff_equal)
  then show ?thesis by (simp only: initialize_state_def Let_def fst_conv snd_conv)
qed

lemma backlog_mset:
  "mset (snd (initialize_state st ls))
   = mset (filter (\<lambda>item. entry_status (snd item) = ''pending'') (fst (initialize_state st ls)))"
  by (simp add: initialize_state_def Let_def)

lemma backlog_zero_last:
  assumes nn: "\<forall>item\<in>set st. 0 \<le> priority (snd item)"
    and ij: "i < j" "j < length (snd (initialize_state st ls))"
    and z: "priority (snd (snd (initialize_state st ls) ! i)) = 0"
  shows "priority (snd (snd (initialize_state st ls) ! j)) = 0"
proof -
  let ?b = "snd (initialize_state st ls)"
  from scan_appends [of st "found_files ls"] obtain new where
    f: "fst (initialize_state st ls) = st @ new"
    and n: "\<forall>item\<in>set new. priority (snd item) = get_priority_from_filename (fst item)"
    by (auto simp add: initialize_state_def Let_def)
  have "\<forall>item\<in>set (st @ new). 0 \<le> priority (snd item)"
    using nn n priority_nonneg by auto
  moreover have "set ?b \<subseteq> set (fst (initialize_state st ls))"
    using backlog_mset [of st ls] by (metis filter_is_subset set_mset_mset)
  moreover have "?b ! j \<in> set ?b" using ij(2) by (rule nth_mem)
  ultimately have "0 \<le> priority (snd (?b ! j))" using f by auto
  moreover have "priority (snd (?b ! j)) \<le> priority (snd (?b ! i))"
    using backlog_sorted [of st ls] ij by (simp add: sorted_wrt_iff_nth_less)
  ultimately show ?thesis using z by simp
qed

lemma example_backlog:
  "snd (initialize_state [] [''/d/arXiv_src_2201_005.tar'', ''/d/arXiv_src_2203_001.tar''])
   = [(''arXiv_src_2203_001.tar'',
       \<lparr>path = ''/d/arXiv_src_2203_001.tar'', entry_status = ''pending'', priority = 2203001\<rparr>),
      (''arXiv_src_2201_005.tar'',
       \<lparr>path = ''/d/arXiv_src_2201_005.tar'', entry_status = ''pending'', priority = 2201005\<rparr>)]"
  by (simp add: initialize_state_def found_files_def path_name_def endswith_def add_new_def
      priority_2201 priority_2203 Let_def)

text \<open>
  Claim C5, as amended.  A non-zero priority comes only from a file name that contains
  \<open>src_\<close>, digits, \<open>_\<close>, digits, \<open>.tar\<close>, and is the integer read from the two digit
  groups concatenated (so a name without the pattern has priority 0); for a name
  \<open>arXiv_src_<period>_<sequence>.tar\<close> it is the integer of period followed by sequence.
  The backlog is a rearrangement of the pending entries in descending priority order: an
  entry is never after one of lower priority, entries of equal priority keep their order
  of discovery, and, priorities being non-negative, the entries of priority 0 come last.
  The archive of period 2203, sequence 001 is scheduled before that of period 2201,
  sequence 005.
\<close>

theorem backlog_priority_order:
  "(get_priority_from_filename f \<noteq> 0 \<longrightarrow>
      (\<exists>pre g1 g2 rest. f = pre @ ''src_'' @ g1 @ ''_'' @ g2 @ ''.tar'' @ rest
          \<and> g1 \<noteq> [] \<and> g2 \<noteq> [] \<and> list_all is_digit g1 \<and> list_all is_digit g2
          \<and> get_priority_from_filename f = py_int (g1 @ g2)))
   \<and> (d1 \<noteq> [] \<and> d2 \<noteq> [] \<and> list_all is_digit d1 \<and> list_all is_digit d2 \<longrightarrow>
        get_priority_from_filename (''arXiv_src_'' @ d1 @ ''_'' @ d2 @ ''.tar'' @ tail)
        = py_int (d1 @ d2))
   \<and> mset (snd (initialize_state st ls))
       = mset (filter (\<lambda>item. entry_status (snd item) = ''pending'')
                 (fst (initialize_state st ls)))
   \<and> sorted_wrt (\<lambda>a b. priority (snd b) \<le> priority (snd a)) (snd (initialize_state st ls))
   \<and> (\<forall>k. filter (\<lambda>item. priority (snd item) = k) (snd (initialize_state st ls))
           = filter (\<lambda>item. priority (snd item) = k)
               (filter (\<lambda>item. entry_status (snd item) = ''pending'')
                  (fst (initialize_state st ls))))
   \<and> ((\<forall>item\<in>set st. 0 \<le> priority (snd item)) \<longrightarrow>
        (\<forall>i j. i < j \<and> j < length (snd (initialize_state st ls))
               \<and> priority (snd (snd (initialize_state st ls) ! i)) = 0
           \<longrightarrow> priority (snd (snd (initialize_state st ls) ! j)) = 0))
   \<and> map (\<lambda>item. (fst item, priority (snd item)))
        (snd (initialize_state []
                [''/d/arXiv_src_2201_005.tar'', ''/d/arXiv_src_2203_001.tar'']))
      = [(''arXiv_src_2203_001.tar'', 2203001), (''arXiv_src_2201_005.tar'', 2201005)]"
proof -
  have 1: "get_priority_from_filename f \<noteq> 0 \<longrightarrow>
      (\<exists>pre g1 g2 rest. f = pre @ ''src_'' @ g1 @ ''_'' @ g2 @ ''.tar'' @ rest
          \<and> g1 \<noteq> [] \<and> g2 \<noteq> [] \<and> list_all is_digit g1 \<and> list_all is_digit g2
          \<and> get_priority_from_filename f = py_int (g1 @ g2))"
    using priority_of_match by blast
  have 2: "d1 \<noteq> [] \<and> d2 \<noteq> [] \<and> list_all is_digit d1 \<and> list_all is_digit d2 \<longrightarrow>
        get_priority_from_filename (''arXiv_src_'' @ d1 @ ''_'' @ d2 @ ''.tar'' @ tail)
        = py_int (d1 @ d2)"
    using priority_arxiv_name by blast
  have 6: "(\<forall>item\<in>set st. 0 \<le> priority (snd item)) \<longrightarrow>
        (\<forall>i j. i < j \<and> j < length (snd (initialize_state st ls))
               \<and> priority (snd (snd (initialize_state st ls) ! i)) = 0
           \<longrightarrow> priority (snd (snd (initialize_state st ls) ! j)) = 0)"
    using backlog_zero_last by blast
  have 7: "map (\<lambda>item. (fst item, priority (snd item)))
        (snd (initialize_state []
                [''/d/arXiv_src_2201_005.tar'', ''/d/arXiv_src_2203_001.tar'']))
      = [(''arXiv_src_2203_001.tar'', 2203001), (''arXiv_src_2201_005.tar'', 2201005)]"
    by (simp add: example_backlog)
  from 1 2 backlog_mset [of st ls] backlog_sorted [of st ls] backlog_stable [of _ st ls] 6 7
  show ?thesis by blast
qed

theorem backlog_priority_order_witness:
  "get_priority_from_filename ''arXiv_src_2203_001.tar'' = 2203001
   \<and> get_priority_from_filename ''arXiv_src_2201_005.tar'' \<noteq> 0
   \<and> (\<exists>pre g1 g2 rest.
         ''arXiv_src_2201_005.tar'' = pre @ ''src_'' @ g1 @ ''_'' @ g2 @ ''.tar'' @ rest
         \<and> g1 \<noteq> [] \<and> g2 \<noteq> [])
   \<and> sorted_wrt (\<lambda>a b. priority (snd b) \<le> priority (snd a))
        (snd (initialize_state done_store
                [''/d/x.tar'', ''/d/arXiv_src_2203_001.tar'', ''/d/y.tar'']))
   \<and> (\<exists>i j. i < j
         \<and> j < length (snd (initialize_state done_store
                [''/d/x.tar'', ''/d/arXiv_src_2203_001.tar'', ''/d/y.tar'']))
         \<and> priority (snd (snd (initialize_state done_store
                [''/d/x.tar'', ''/d/arXiv_src_2203_001.tar'', ''/d/y.tar'']) ! i)) = 0
         \<and> priority (snd (snd (initialize_state done_store
                [''/d/x.tar'', ''/d/arXiv_src_2203_001.tar'', ''/d/y.tar'']) ! j)) = 0)
   \<and> map fst (snd (initialize_state done_store
                [''/d/x.tar'', ''/d/arXiv_src_2203_001.tar'', ''/d/y.tar'']))
      = [''arXiv_src_2203_001.tar'', ''x.tar'', ''y.tar'']"
proof -
  let ?ls = "[''/d/x.tar'', ''/d/arXiv_src_2203_001.tar'', ''/d/y.tar'']"
  note t = backlog_priority_order
    [of "''arXiv_src_2201_005.tar''" "''2203''" "''001''" "[]" done_store ?ls]
  have dg: "''2203'' \<noteq> [] \<and> ''001'' \<noteq> [] \<and> list_all is_digit ''2203''
            \<and> list_all is_digit ''001''"
    by (simp add: is_digit_def)
  from t dg have "get_priority_from_filename (''arXiv_src_'' @ ''2203'' @ ''_'' @ ''001'' @ ''.tar'' @ [])
                  = py_int (''2203'' @ ''001'')" by blast
  then have a: "get_priority_from_filename ''arXiv_src_2203_001.tar'' = 2203001"
    by (simp add: py_int_def digit_value_def)
  have b: "get_priority_from_filename ''arXiv_src_2201_005.tar'' \<noteq> 0"
    by (simp add: priority_2201)
  from t b have c: "\<exists>pre g1 g2 rest.
         ''arXiv_src_2201_005.tar'' = pre @ ''src_'' @ g1 @ ''_'' @ g2 @ ''.tar'' @ rest
         \<and> g1 \<noteq> [] \<and> g2 \<noteq> []" by blast
  from t have s: "sorted_wrt (\<lambda>a b. priority (snd b) \<le> priority (snd a))
        (snd (initialize_state done_store ?ls))" by blast
  have px: "get_priority_from_filename ''x.tar'' = 0" "get_priority_from_filename ''y.tar'' = 0"
    by (simp_all add: get_priority_from_filename_def match_here_def startswith_def)
  have e: "snd (initialize_state done_store ?ls)
      = [(''arXiv_src_2203_001.tar'',
          \<lparr>path = ''/d/arXiv_src_2203_001.tar'', entry_status = ''pending'', priority = 2203001\<rparr>),
         (''x.tar'', \<lparr>path = ''/d/x.tar'', entry_status = ''pending'', priority = 0\<rparr>),
         (''y.tar'', \<lparr>path = ''/d/y.tar'', entry_status = ''pending'', priority = 0\<rparr>)]"
    by (simp add: initialize_state_def found_files_def path_name_def endswith_def add_new_def
        priority_2203 px done_store_def Let_def)
  have nn: "\<forall>item\<in>set done_store. 0 \<le> priority (snd item)"
    by (simp add: done_store_def)
  have z: "(1::nat) < 2 \<and> 2 < length (snd (initialize_state done_store ?ls))
       \<and> priority (snd (snd (initialize_state done_store ?ls) ! 1)) = 0"
    by (simp add: e)
  with t nn have "priority (snd (snd (initialize_state done_store ?ls) ! 2)) = 0" by blast
  with z have f: "\<exists>i j. i < j
         \<and> j < length (snd (initialize_state done_store ?ls))
         \<and> priority (snd (snd (initialize_state done_store ?ls) ! i)) = 0
         \<and> priority (snd (snd (initialize_state done_store ?ls) ! j)) = 0" by blast
  have g: "map fst (snd (initialize_state done_store ?ls))
      = [''arXiv_src_2203_001.tar'', ''x.tar'', ''y.tar'']"
    by (simp add: e)
  from a b c s f g show ?thesis by blast
qed

text \<open>
  The order is not strictly descending: two different file names can carry the same
  non-zero priority, here 111 from the groups 1, 11 and from 11, 1.
\<close>

theorem equal_priorities_in_backlog:
  "snd (initialize_state [] [''/d/arXiv_src_1_11.tar'', ''/d/arXiv_src_11_1.tar''])
   = [(''arXiv_src_1_11.tar'',
       \<lparr>path = ''/d/arXiv_src_1_11.tar'', entry_status = ''pending'', priority = 111\<rparr>),
      (''arXiv_src_11_1.tar'',
       \<lparr>path = ''/d/arXiv_src_11_1.tar'', entry_status = ''pending'', priority = 111\<rparr>)]"
proof -
  have "get_priority_from_filename ''arXiv_src_1_11.tar'' = 111"
    "get_priority_from_filename ''arXiv_src_11_1.tar'' = 111"
    by (simp_all add: get_priority_from_filename_def match_here_def startswith_def is_digit_def
      py_int_def digit_value_def Let_def)
  then show ?thesis
    by (simp add: initialize_state_def found_files_def path_name_def endswith_def add_new_def
        Let_def)
qed

section \<open>The exit status of the batch command\<close>

lemma batch_cli_zero: "batch_cli env state_data nw = None \<or> batch_cli env state_data nw = Some 0"
  by (simp add: batch_cli_def split: option.splits)

text \<open>
  Claim C3 at a failing input: a source directory with one archive whose single item fails
  to convert.  The run completes the archive, its report counts one failed file, and the
  exit status of the batch command is 0; the sequential entry point of the package returns
  1 on the same item.
\<close>

theorem batch_cli_exit_status_ignores_failures:
  "main one_failure_env [] 1
   = Some ([(''arXiv_src_2201_005.tar'',
             \<lparr>path = ''/d/arXiv_src_2201_005.tar'', entry_status = ''completed'',
               priority = 2201005\<rparr>)],
           [(''arXiv_src_2201_005.tar'',
             Inr (Some \<lparr>total_files = 1, processed_files = 1, successful_files = 0,
                        failed_files = 1, skipped_files = 0, start_time = 100,
                        end_time = 110, processing_times = [2]\<rparr>))])
   \<and> batch_cli one_failure_env [] 1 = Some 0
   \<and> arxiv_parser_main (\<lambda>p. False) True [''/s/b.gz''] = 1"
proof -
  have "arxiv_parser_main (\<lambda>p. False) True [''/s/b.gz''] = 1"
    by (simp add: arxiv_parser_main_def startswith_def path_name_def demo_types)
  then show ?thesis by (simp add: batch_cli_def one_failure_main [simplified])
qed

section \<open>Quarantine\<close>

declare str_nat.simps [simp del]

lemma str_ts: "str_nat 1700000000 = ''1700000000''"
  by (simp add: str_nat.simps)

lemma p_parts: "path_name ''/s/p.gz'' = ''p.gz''" "path_stem ''p.gz'' = ''p''"
  "path_suffix ''p.gz'' = ''.gz''"
  by (simp_all add: path_name_def path_stem_def path_suffix_def rfind_def)

lemma move1:
  "safe_move_to_failed 1700000000 ''t'' ''/s/p.gz'' (Some ''first'') (Some ''bad'') empty_failed_dir
   = (True, \<lparr>quarantined = [''p.gz'' \<mapsto> ''first''], fail_log = [''[t] p.gz: bad'']\<rparr>)"
  by (simp add: safe_move_to_failed_def empty_failed_dir_def p_parts write_failure_log_def)

lemma move2:
  "safe_move_to_failed 1700000000 ''t'' ''/s/p.gz'' (Some ''second'') (Some ''bad'')
     \<lparr>quarantined = [''p.gz'' \<mapsto> ''first''], fail_log = [''[t] p.gz: bad'']\<rparr>
   = (True, \<lparr>quarantined = [''p.gz'' \<mapsto> ''first'', ''p_1700000000.gz'' \<mapsto> ''second''],
             fail_log = [''[t] p.gz: bad'', ''[t] p.gz: bad'']\<rparr>)"
  by (simp add: safe_move_to_failed_def p_parts write_failure_log_def str_ts)

lemma move3:
  "safe_move_to_failed 1700000000 ''t'' ''/s/p.gz'' (Some ''third'') (Some ''bad'')
     \<lparr>quarantined = [''p.gz'' \<mapsto> ''first'', ''p_1700000000.gz'' \<mapsto> ''second''],
             fail_log = [''[t] p.gz: bad'', ''[t] p.gz: bad'']\<rparr>
   = (True, \<lparr>quarantined = [''p.gz'' \<mapsto> ''first'', ''p_1700000000.gz'' \<mapsto> ''third''],
             fail_log = [''[t] p.gz: bad'', ''[t] p.gz: bad'', ''[t] p.gz: bad'']\<rparr>)"
  by (simp add: safe_move_to_failed_def p_parts write_failure_log_def str_ts)

lemma safe_move_keeps_when_target_free:
  assumes "safe_move_to_failed now stamp file_path (Some c) error_info fd = (ok, fd')"
    and "path_name file_path \<in> dom (quarantined fd) \<longrightarrow>
         path_stem (path_name file_path) @ ''_'' @ str_nat now @ path_suffix (path_name file_path)
           \<notin> dom (quarantined fd)"
    and "quarantined fd k = Some v"
  shows "quarantined fd' k = Some v"
  using assms
  by (auto simp add: safe_move_to_failed_def Let_def write_failure_log_def
      split: option.splits if_splits)

text \<open>
  Claim C4 at a failing input: three failing items with the same name \<open>p.gz\<close>, moved into
  an empty quarantine directory within the same second.  The second is renamed with the
  timestamp; the third gets the same timestamped name and replaces the second, so the
  directory holds two files for three items, all three logged in \<open>fail.log\<close>.
\<close>

theorem same_second_quarantine_overwrites:
  "three_moves
   = \<lparr>quarantined = [''p.gz'' \<mapsto> ''first'', ''p_1700000000.gz'' \<mapsto> ''third''],
      fail_log = [''[t] p.gz: bad'', ''[t] p.gz: bad'', ''[t] p.gz: bad'']\<rparr>
   \<and> dom (quarantined three_moves) = {''p.gz'', ''p_1700000000.gz''}
   \<and> ''second'' \<notin> ran (quarantined three_moves)"
proof -
  have t: "three_moves
   = \<lparr>quarantined = [''p.gz'' \<mapsto> ''first'', ''p_1700000000.gz'' \<mapsto> ''third''],
      fail_log = [''[t] p.gz: bad'', ''[t] p.gz: bad'', ''[t] p.gz: bad'']\<rparr>"
    by (simp add: three_moves_def move1 move2 move3)
  have "dom (quarantined three_moves) = {''p.gz'', ''p_1700000000.gz''}"
    by (auto simp add: t)
  moreover have "''second'' \<notin> ran (quarantined three_moves)"
    by (auto simp add: t ran_def)
  ultimately show ?thesis using t by simp
qed


end
